theory Spec2Isabelle
  imports Complex_Main
begin

section \<open>Numbers and form input\<close>

text \<open>
  The tax calculators of \<^verbatim>\<open>TaxCalculator.jsx\<close> and of the income-tax edge function work on
  JavaScript numbers. Amounts are modelled as exact rationals: every statement below is
  about the arithmetic the code writes down, not about binary rounding. The two non-finite
  situations that the code can reach are modelled explicitly:
  \<^item> \<^verbatim>\<open>parseFloat\<close> and \<^verbatim>\<open>parseInt\<close> return \<^verbatim>\<open>NaN\<close> on text that is not a number; the
    form record below holds the value those functions return for each field (a finite
    number or \<^verbatim>\<open>NaN\<close>; the text \<^verbatim>\<open>Infinity\<close> is left out);
  \<^item> a division by zero yields an infinite or undefined number; the one place where
    this can happen is the French quotient. Where the result object then holds
    \<^verbatim>\<open>NaN\<close> for its total, the model returns \<open>NonFinite\<close> in place of the result: the
    source returns the object and raises nothing.
\<close>

datatype 'a parsed = NaN | Num 'a

text \<open>\<^verbatim>\<open>x || 0\<close>: a falsy number (\<^verbatim>\<open>NaN\<close> or zero) is replaced by 0.\<close>

definition or_zero :: "'a::zero parsed \<Rightarrow> 'a" where
  "or_zero p = (case p of NaN \<Rightarrow> 0 | Num x \<Rightarrow> (if x = 0 then 0 else x))"

datatype js_error = TypeError | NonFinite

text \<open>
  \<^verbatim>\<open>formData\<close>: the numeric fields hold the result of \<^verbatim>\<open>parseFloat\<close> (\<^verbatim>\<open>parseInt\<close> for
  the dependents) on the text typed into the form.
\<close>

record formData =
  income :: "rat parsed"
  maritalStatus :: string
  dependents :: "int parsed"
  businessExpenses :: "rat parsed"
  vatAmount :: "rat parsed"
  vatRate :: "rat parsed"
  propertyValue :: "rat parsed"
  isFirstTimeBuyer :: bool

section \<open>Income tax in \<^verbatim>\<open>TaxCalculator.jsx\<close>\<close>

text \<open>
  A bracket \<^verbatim>\<open>{ min, max, rate }\<close>; \<open>bmax = None\<close> stands for \<^verbatim>\<open>max: Infinity\<close>, and the rate
  is a percentage.
\<close>

record bracket =
  bmin :: rat
  bmax :: "rat option"
  rate :: rat

text \<open>
  One line of the breakdown. The source formats the range and the rate as text
  (\<^verbatim>\<open>toLocaleString\<close>); the model keeps the numbers that are formatted.
\<close>

record breakdown_item =
  range_min :: rat
  range_max :: "rat option"
  rate_percent :: rat
  taxableAmount :: rat
  tax :: rat

record income_result =
  grossIncome :: rat
  totalTax :: rat
  netIncome :: rat
  effectiveRate :: rat
  marginalRate :: rat
  allowances :: "rat option"
  quotientFamilial :: "rat option"
  breakdown :: "breakdown_item list option"
  jurisdiction :: string
  currency :: string

text \<open>\<^verbatim>\<open>Math.min(income, bracket.max)\<close>, where the maximum may be \<^verbatim>\<open>Infinity\<close>.\<close>

definition min_upto :: "rat \<Rightarrow> rat option \<Rightarrow> rat" where
  "min_upto x m = (case m of None \<Rightarrow> x | Some u \<Rightarrow> min x u)"

text \<open>
  The loop \<^verbatim>\<open>for (const bracket of brackets)\<close> shared, text for text, by
  \<^verbatim>\<open>calculateMaltaIncomeTax\<close> and \<^verbatim>\<open>calculateFranceIncomeTax\<close>. The accumulators \<^verbatim>\<open>tax\<close>
  and \<^verbatim>\<open>breakdown\<close> are passed along.
\<close>

fun taxBrackets ::
  "rat \<Rightarrow> bracket list \<Rightarrow> rat \<Rightarrow> breakdown_item list \<Rightarrow> rat \<times> breakdown_item list" where
  "taxBrackets inc [] acc bd = (acc, bd)"
| "taxBrackets inc (b # bs) acc bd =
     (if inc > bmin b then
        (let taxableInThisBracket = min_upto inc (bmax b) - bmin b + 1;
             taxForBracket = taxableInThisBracket * (rate b / 100)
         in taxBrackets inc bs (acc + taxForBracket)
              (if taxableInThisBracket > 0
               then bd @ [\<lparr> range_min = bmin b, range_max = bmax b, rate_percent = rate b,
                              taxableAmount = taxableInThisBracket, tax = taxForBracket \<rparr>]
               else bd))
      else taxBrackets inc bs acc bd)"

text \<open>The test \<^verbatim>\<open>income >= bracket.min && income <= bracket.max\<close>.\<close>

definition inBracket :: "rat \<Rightarrow> bracket \<Rightarrow> bool" where
  "inBracket inc b = (inc \<ge> bmin b \<and> (case bmax b of None \<Rightarrow> True | Some u \<Rightarrow> inc \<le> u))"

text \<open>
  \<^verbatim>\<open>getMarginalRate\<close>: the rate of the first bracket that passes the test, else
  \<^verbatim>\<open>brackets[brackets.length - 1].rate\<close>, which throws a TypeError on an empty array.
\<close>

definition getMarginalRate :: "rat \<Rightarrow> bracket list \<Rightarrow> js_error + rat" where
  "getMarginalRate inc brackets =
     (case find (inBracket inc) brackets of
        Some b \<Rightarrow> Inr (rate b)
      | None \<Rightarrow> (if brackets = [] then Inl TypeError else Inr (rate (last brackets))))"

definition malta_brackets :: "bracket list" where
  "malta_brackets =
     [\<lparr> bmin = 0, bmax = Some 9100, rate = 0 \<rparr>,
      \<lparr> bmin = 9101, bmax = Some 14500, rate = 15 \<rparr>,
      \<lparr> bmin = 14501, bmax = Some 19500, rate = 25 \<rparr>,
      \<lparr> bmin = 19501, bmax = Some 60000, rate = 25 \<rparr>,
      \<lparr> bmin = 60001, bmax = None, rate = 35 \<rparr>]"

definition france_brackets :: "bracket list" where
  "france_brackets =
     [\<lparr> bmin = 0, bmax = Some 10777, rate = 0 \<rparr>,
      \<lparr> bmin = 10778, bmax = Some 27478, rate = 11 \<rparr>,
      \<lparr> bmin = 27479, bmax = Some 78570, rate = 30 \<rparr>,
      \<lparr> bmin = 78571, bmax = Some 168994, rate = 41 \<rparr>,
      \<lparr> bmin = 168995, bmax = None, rate = 45 \<rparr>]"

definition malta_allowances :: "bool \<Rightarrow> int \<Rightarrow> rat" where
  "malta_allowances isMarried deps = (if isMarried then 600 else 0) + of_int deps * 300"

definition calculateMaltaIncomeTax :: "rat \<Rightarrow> bool \<Rightarrow> int \<Rightarrow> js_error + income_result" where
  "calculateMaltaIncomeTax inc isMarried deps =
     (let (t, bd) = taxBrackets inc malta_brackets 0 [];
          allow = malta_allowances isMarried deps;
          finalTax = max 0 (t - allow);
          eff = (if inc > 0 then (finalTax / inc) * 100 else 0)
      in case getMarginalRate inc malta_brackets of
           Inl e \<Rightarrow> Inl e
         | Inr mr \<Rightarrow>
             Inr \<lparr> grossIncome = inc, totalTax = finalTax, netIncome = inc - finalTax,
                   effectiveRate = eff, marginalRate = mr, allowances = Some allow,
                   quotientFamilial = None, breakdown = Some bd,
                   jurisdiction = ''Malta'', currency = ''EUR'' \<rparr>)"

text \<open>The \<^emph>\<open>quotient familial\<close>: 1 part, 2 when married, plus half a part per dependent.\<close>

definition france_parts :: "bool \<Rightarrow> int \<Rightarrow> rat" where
  "france_parts isMarried deps = (if isMarried then 2 else 1) + of_int deps * (1 / 2)"

text \<open>
  \<^verbatim>\<open>parts\<close> is 0 for a negative number of dependents typed into the form (-2 when single,
  -4 when married), and \<^verbatim>\<open>income / parts\<close> is then not a finite number:
  \<^item> for an income above 0 the quotient is \<^verbatim>\<open>Infinity\<close>, the last bracket adds
    \<^verbatim>\<open>Infinity\<close> to the tax, and \<^verbatim>\<open>tax * parts\<close> is \<^verbatim>\<open>NaN\<close>: the result object has
    the total \<^verbatim>\<open>NaN\<close>, and the model returns \<open>NonFinite\<close>;
  \<^item> for an income of 0 or below the quotient is \<^verbatim>\<open>NaN\<close> or \<^verbatim>\<open>-Infinity\<close>, no test
    \<^verbatim>\<open>quotientIncome > bracket.min\<close> passes, the tax is 0 and the breakdown empty,
    \<^verbatim>\<open>tax * parts\<close> is 0, and \<^verbatim>\<open>getMarginalRate\<close> passes no test either and returns the
    rate of the last bracket of the table.
\<close>

definition calculateFranceIncomeTax :: "rat \<Rightarrow> bool \<Rightarrow> int \<Rightarrow> js_error + income_result" where
  "calculateFranceIncomeTax inc isMarried deps =
     (let parts = france_parts isMarried deps
      in if parts = 0 then
           (if inc > 0 then Inl NonFinite
            else Inr \<lparr> grossIncome = inc, totalTax = 0, netIncome = inc - 0,
                       effectiveRate = 0, marginalRate = rate (last france_brackets),
                       allowances = None, quotientFamilial = Some parts, breakdown = Some [],
                       jurisdiction = ''France'', currency = ''EUR'' \<rparr>)
         else
           (let quotientIncome = inc / parts;
                (t, bd) = taxBrackets quotientIncome france_brackets 0 [];
                finalTax = t * parts;
                eff = (if inc > 0 then (finalTax / inc) * 100 else 0)
            in case getMarginalRate quotientIncome france_brackets of
                 Inl e \<Rightarrow> Inl e
               | Inr mr \<Rightarrow>
                   Inr \<lparr> grossIncome = inc, totalTax = finalTax, netIncome = inc - finalTax,
                         effectiveRate = eff, marginalRate = mr, allowances = None,
                         quotientFamilial = Some parts, breakdown = Some bd,
                         jurisdiction = ''France'', currency = ''EUR'' \<rparr>))"

definition generic_rate :: "rat \<Rightarrow> rat" where
  "generic_rate inc = (if inc \<le> 50000 then 20 else if inc \<le> 100000 then 30 else 40)"

definition generic_allowances :: "bool \<Rightarrow> int \<Rightarrow> rat" where
  "generic_allowances isMarried deps = (if isMarried then 2000 else 1000) + of_int deps * 500"

definition calculateGenericIncomeTax ::
  "string \<Rightarrow> rat \<Rightarrow> bool \<Rightarrow> int \<Rightarrow> js_error + income_result" where
  "calculateGenericIncomeTax jur inc isMarried deps =
     (let r = generic_rate inc;
          t = inc * (r / 100);
          allow = generic_allowances isMarried deps;
          finalTax = max 0 (t - allow)
      in Inr \<lparr> grossIncome = inc, totalTax = finalTax, netIncome = inc - finalTax,
               effectiveRate = (if inc > 0 then (finalTax / inc) * 100 else 0),
               marginalRate = r, allowances = Some allow, quotientFamilial = None,
               breakdown = None, jurisdiction = jur, currency = ''EUR'' \<rparr>)"

text \<open>\<^verbatim>\<open>calculateIncomeTax\<close>: reads the form and dispatches on the jurisdiction code.\<close>

definition calculateIncomeTax :: "string \<Rightarrow> formData \<Rightarrow> js_error + income_result" where
  "calculateIncomeTax jur fd =
     (let inc = or_zero (income fd);
          deps = or_zero (dependents fd);
          isMarried = (maritalStatus fd = ''married'')
      in if jur = ''MT'' then calculateMaltaIncomeTax inc isMarried deps
         else if jur = ''FR'' then calculateFranceIncomeTax inc isMarried deps
         else calculateGenericIncomeTax jur inc isMarried deps)"

section \<open>The other calculators of \<^verbatim>\<open>TaxCalculator.jsx\<close>\<close>

record vat_result =
  netAmount :: rat
  vatRate :: rat
  vatAmount :: rat
  totalAmount :: rat
  jurisdiction :: string
  currency :: string


record corporate_result =
  grossProfit :: rat
  businessExpenses :: rat
  taxableProfit :: rat
  corporateTaxRate :: rat
  corporateTax :: rat
  netProfit :: rat
  jurisdiction :: string
  currency :: string

definition corporate_rate :: "string \<Rightarrow> rat \<Rightarrow> rat" where
  "corporate_rate jur taxable =
     (if jur = ''MT'' then 35
      else if jur = ''FR'' then (if taxable \<le> 42500 then 15 else 25)
      else 25)"

definition calculateCorporateTax :: "string \<Rightarrow> formData \<Rightarrow> corporate_result" where
  "calculateCorporateTax jur fd =
     (let profit = or_zero (income fd);
          expenses = or_zero (formData.businessExpenses fd);
          taxable = max 0 (profit - expenses);
          r = corporate_rate jur taxable;
          t = taxable * (r / 100)
      in \<lparr> grossProfit = profit, businessExpenses = expenses, taxableProfit = taxable,
           corporateTaxRate = r, corporateTax = t, netProfit = taxable - t,
           jurisdiction = jur, currency = ''EUR'' \<rparr>)"

record property_result =
  propertyValue :: rat
  taxRate :: rat
  propertyTax :: rat
  isFirstTimeBuyer :: bool
  jurisdiction :: string
  currency :: string

definition property_rate :: "string \<Rightarrow> bool \<Rightarrow> rat" where
  "property_rate jur firstTime = (if jur = ''MT'' then (if firstTime then 0 else 5) else 3)"

definition calculatePropertyTax :: "string \<Rightarrow> formData \<Rightarrow> property_result" where
  "calculatePropertyTax jur fd =
     (let v = or_zero (formData.propertyValue fd);
          r = property_rate jur (formData.isFirstTimeBuyer fd);
          t = v * (r / 100)
      in \<lparr> propertyValue = v, taxRate = r, propertyTax = t,
           isFirstTimeBuyer = formData.isFirstTimeBuyer fd,
           jurisdiction = jur, currency = ''EUR'' \<rparr>)"

section \<open>The income-tax edge function\<close>

text \<open>
  The second \<^verbatim>\<open>serve\<close> handler: a request body
  \<^verbatim>\<open>{ annual_income, marital_status = 'single', calculation_type = 'income_tax' }\<close>. The body is
  JSON, so \<^verbatim>\<open>annual_income\<close> is a finite number or absent (\<open>None\<close>, also for \<^verbatim>\<open>null\<close>);
  an absent \<^verbatim>\<open>marital_status\<close> or \<^verbatim>\<open>calculation_type\<close> takes its default. The CORS
  preflight, the insertion of the result into the database and the time stamp are input
  and output and are left out.
\<close>

record edge_request =
  annual_income :: "rat option"
  marital_status :: "string option"
  calculation_type :: "string option"

text \<open>A bracket \<^verbatim>\<open>{ limit, rate }\<close>; \<open>limit = None\<close> stands for \<^verbatim>\<open>Infinity\<close>; the rate is a fraction.\<close>

record edge_bracket =
  limit :: "rat option"
  erate :: rat

text \<open>
  A breakdown line; the label \<^verbatim>\<open>bracket\<close> is kept as its two numbers, \<^verbatim>\<open>prev_limit\<close> and
  \<^verbatim>\<open>Math.min(bracket.limit, annual_income)\<close>, and the label \<^verbatim>\<open>rate\<close> as \<^verbatim>\<open>bracket.rate * 100\<close>.
\<close>

record edge_item =
  bracket_from :: rat
  bracket_to :: rat
  rate_label :: rat
  taxable_amount :: rat
  tax_amount :: rat

record edge_result =
  annual_income :: rat
  marital_status :: string
  tax_due :: rat
  effective_rate :: rat
  breakdown :: "edge_item list"

datatype edge_response = Status400 string | Status200 "edge_result option"

definition single_brackets :: "edge_bracket list" where
  "single_brackets =
     [\<lparr> limit = Some 9100, erate = 0 \<rparr>,
      \<lparr> limit = Some 14500, erate = 15 / 100 \<rparr>,
      \<lparr> limit = Some 19500, erate = 25 / 100 \<rparr>,
      \<lparr> limit = Some 60000, erate = 25 / 100 \<rparr>,
      \<lparr> limit = None, erate = 35 / 100 \<rparr>]"

definition married_brackets :: "edge_bracket list" where
  "married_brackets =
     [\<lparr> limit = Some 12700, erate = 0 \<rparr>,
      \<lparr> limit = Some 21200, erate = 15 / 100 \<rparr>,
      \<lparr> limit = Some 28700, erate = 25 / 100 \<rparr>,
      \<lparr> limit = Some 60000, erate = 25 / 100 \<rparr>,
      \<lparr> limit = None, erate = 35 / 100 \<rparr>]"

text \<open>
  The loop \<^verbatim>\<open>for (let i = 0; i < brackets.length; i++)\<close>. The arguments are the annual
  income, \<^verbatim>\<open>prev_limit\<close> (0 for the first bracket, else the limit of the bracket before),
  the brackets from index \<^verbatim>\<open>i\<close> on, and the variables \<^verbatim>\<open>tax_due\<close>, \<^verbatim>\<open>remaining_income\<close> and
  \<^verbatim>\<open>breakdown\<close>. At a bracket with limit \<^verbatim>\<open>Infinity\<close> the taxable amount
  \<^verbatim>\<open>Math.min(remaining_income, Infinity - prev_limit)\<close> is the whole remaining income, which
  is positive there; \<^verbatim>\<open>remaining_income\<close> drops to 0 and the next iteration, if there is one,
  takes the \<^verbatim>\<open>break\<close>: the loop is over.
\<close>

fun edge_loop ::
  "rat \<Rightarrow> rat \<Rightarrow> edge_bracket list \<Rightarrow> rat \<Rightarrow> rat \<Rightarrow> edge_item list \<Rightarrow> rat \<times> edge_item list" where
  "edge_loop a prev [] due remaining bd = (due, bd)"
| "edge_loop a prev (b # bs) due remaining bd =
     (if remaining \<le> 0 then (due, bd)
      else
        (case limit b of
           None \<Rightarrow>
             (due + remaining * erate b,
              bd @ [\<lparr> bracket_from = prev, bracket_to = a, rate_label = erate b * 100,
                      taxable_amount = remaining, tax_amount = remaining * erate b \<rparr>])
         | Some l \<Rightarrow>
             (let taxable_in_bracket = min remaining (l - prev)
              in if taxable_in_bracket > 0
                 then edge_loop a l bs (due + taxable_in_bracket * erate b)
                        (remaining - taxable_in_bracket)
                        (bd @ [\<lparr> bracket_from = prev, bracket_to = min l a,
                                 rate_label = erate b * 100,
                                 taxable_amount = taxable_in_bracket,
                                 tax_amount = taxable_in_bracket * erate b \<rparr>])
                 else edge_loop a l bs due (remaining - taxable_in_bracket) bd)))"

text \<open>\<^verbatim>\<open>Math.round\<close>: the nearest integer, a half rounded up.\<close>

definition math_round :: "rat \<Rightarrow> rat" where
  "math_round x = of_int \<lfloor>x + 1 / 2\<rfloor>"

definition income_tax_handler :: "edge_request \<Rightarrow> edge_response" where
  "income_tax_handler req =
     (case edge_request.annual_income req of
        None \<Rightarrow> Status400 ''Valid annual income is required''
      | Some a \<Rightarrow>
          if a = 0 \<or> a \<le> 0 then Status400 ''Valid annual income is required''
          else
            (let ms = (case edge_request.marital_status req of None \<Rightarrow> ''single'' | Some s \<Rightarrow> s);
                 ct = (case calculation_type req of None \<Rightarrow> ''income_tax'' | Some s \<Rightarrow> s)
             in if ct = ''income_tax''
                then
                  (let brackets = (if ms = ''single'' then single_brackets else married_brackets);
                       (due, bd) = edge_loop a 0 brackets 0 a [];
                       eff = (due / a) * 100
                   in Status200 (Some \<lparr> annual_income = a, marital_status = ms,
                                         tax_due = math_round (due * 100) / 100,
                                         effective_rate = math_round (eff * 100) / 100,
                                         breakdown = bd \<rparr>))
                else Status200 None))"

section \<open>Notions used in the statements\<close>

text \<open>
  The form in its initial state (\<^verbatim>\<open>useState\<close>: empty amounts, VAT rate \<^verbatim>\<open>'18'\<close>, no first-time
  buyer) with the three income-tax fields filled in.
\<close>

definition income_form :: "rat parsed \<Rightarrow> string \<Rightarrow> int parsed \<Rightarrow> formData" where
  "income_form inc ms deps =
     \<lparr> income = inc, maritalStatus = ms, dependents = deps, businessExpenses = NaN,
       vatAmount = NaN, vatRate = Num 18, propertyValue = NaN, isFirstTimeBuyer = False \<rparr>"

text \<open>What one bracket adds to \<^verbatim>\<open>tax\<close> in one turn of the loop of \<open>taxBrackets\<close>.\<close>

definition bracketTax :: "rat \<Rightarrow> bracket \<Rightarrow> rat" where
  "bracketTax inc b =
     (if inc > bmin b then (min_upto inc (bmax b) - bmin b + 1) * (rate b / 100) else 0)"

text \<open>A bracket with a rate that is not negative and a maximum not below its minimum.\<close>

definition wf_bracket :: "bracket \<Rightarrow> bool" where
  "wf_bracket b = (0 \<le> rate b \<and> (case bmax b of None \<Rightarrow> True | Some u \<Rightarrow> bmin b \<le> u))"

text \<open>The form with the two corporate-tax fields, and with the two property-tax fields.\<close>

definition corporate_form :: "rat parsed \<Rightarrow> rat parsed \<Rightarrow> formData" where
  "corporate_form profit expenses =
     \<lparr> income = profit, maritalStatus = ''single'', dependents = Num 0,
       businessExpenses = expenses, vatAmount = NaN, vatRate = Num 18, propertyValue = NaN,
       isFirstTimeBuyer = False \<rparr>"

definition property_form :: "rat parsed \<Rightarrow> bool \<Rightarrow> formData" where
  "property_form v firstTime =
     \<lparr> income = NaN, maritalStatus = ''single'', dependents = Num 0, businessExpenses = NaN,
       vatAmount = NaN, vatRate = Num 18, propertyValue = v, isFirstTimeBuyer = firstTime \<rparr>"

text \<open>The total of a result, and the sum of the tax amounts of its breakdown.\<close>

definition result_total :: "js_error + income_result \<Rightarrow> rat option" where
  "result_total x = (case x of Inl e \<Rightarrow> None | Inr r \<Rightarrow> Some (totalTax r))"

definition result_breakdown_sum :: "js_error + income_result \<Rightarrow> rat option" where
  "result_breakdown_sum x =
     (case x of Inl e \<Rightarrow> None
      | Inr r \<Rightarrow> (case income_result.breakdown r of None \<Rightarrow> None
                  | Some bd \<Rightarrow> Some (sum_list (map tax bd))))"

text \<open>
  The width of a bracket in the words of the specification: \<open>min(base, upperBound) - lowerBound\<close>,
  clamped to \<open>[0, upperBound - lowerBound]\<close>, and \<open>max(0, base - lowerBound)\<close> for the unbounded
  last bracket.
\<close>

definition spec_width :: "rat \<Rightarrow> rat \<Rightarrow> rat option \<Rightarrow> rat" where
  "spec_width base lower upper =
     (case upper of
        None \<Rightarrow> max 0 (base - lower)
      | Some u \<Rightarrow> max 0 (min (min base u - lower) (u - lower)))"

text \<open>
  The threshold reduced-rate model in the words of the specification: the reduced rate on
  the part of the base under the threshold, the standard rate on the part above it.
\<close>

definition spec_two_band_tax :: "rat \<Rightarrow> rat \<Rightarrow> rat \<Rightarrow> rat \<Rightarrow> rat" where
  "spec_two_band_tax threshold reduced standard base =
     min base threshold * (reduced / 100) + max 0 (base - threshold) * (standard / 100)"

text \<open>
  The evaluation of a bracket sequence in the words of the specification, on the brackets of
  the edge function (each one runs from the limit before it, 0 for the first, up to its own
  limit): one line for each bracket, with the width \<open>spec_width\<close> and the contribution width
  times rate, stopping once the base is at most the lower bound; and the limits being in
  increasing order.
\<close>

fun spec_breakdown :: "rat \<Rightarrow> rat \<Rightarrow> edge_bracket list \<Rightarrow> edge_item list" where
  "spec_breakdown base lower [] = []"
| "spec_breakdown base lower (b # bs) =
     (if base \<le> lower then []
      else \<lparr> bracket_from = lower, bracket_to = min_upto base (limit b),
             rate_label = erate b * 100,
             taxable_amount = spec_width base lower (limit b),
             tax_amount = spec_width base lower (limit b) * erate b \<rparr>
           # (case limit b of None \<Rightarrow> [] | Some l \<Rightarrow> spec_breakdown base l bs))"

fun ordered_limits :: "rat \<Rightarrow> edge_bracket list \<Rightarrow> bool" where
  "ordered_limits prev [] = True"
| "ordered_limits prev (b # bs) =
     (case limit b of None \<Rightarrow> True | Some l \<Rightarrow> prev < l \<and> ordered_limits l bs)"

section \<open>The bracket loop of \<^verbatim>\<open>TaxCalculator.jsx\<close>\<close>

lemma taxBrackets_fst:
  "fst (taxBrackets inc bs acc bd) = acc + sum_list (map (bracketTax inc) bs)"
  by (induction bs arbitrary: acc bd) (simp_all add: bracketTax_def Let_def)

lemma wf_taxable_pos:
  assumes "wf_bracket b" "bmin b < inc"
  shows "0 < min_upto inc (bmax b) - bmin b + 1"
  using assms by (cases "bmax b") (auto simp add: wf_bracket_def min_upto_def min_def)

lemma taxBrackets_snd:
  "list_all wf_bracket bs \<Longrightarrow>
   sum_list (map tax (snd (taxBrackets inc bs acc bd))) =
     sum_list (map tax bd) + sum_list (map (bracketTax inc) bs)"
proof (induction bs arbitrary: acc bd)
  case Nil
  then show ?case by simp
next
  case (Cons b bs)
  then have wf: "wf_bracket b" and rest: "list_all wf_bracket bs" by simp_all
  show ?case
  proof (cases "bmin b < inc")
    case True
    with wf have "0 < min_upto inc (bmax b) - bmin b + 1" by (rule wf_taxable_pos)
    with True show ?thesis
      by (simp add: Cons.IH [OF rest] bracketTax_def Let_def)
  next
    case False
    then show ?thesis by (simp add: Cons.IH [OF rest] bracketTax_def)
  qed
qed

lemma min_upto_mono: "a \<le> c \<Longrightarrow> min_upto a m \<le> min_upto c m"
  by (cases m) (simp_all add: min_upto_def min_le_iff_disj)

lemma bracketTax_nonneg: "wf_bracket b \<Longrightarrow> 0 \<le> bracketTax inc b"
proof (cases "bmin b < inc")
  case True
  assume wf: "wf_bracket b"
  from wf True have "0 < min_upto inc (bmax b) - bmin b + 1" by (rule wf_taxable_pos)
  moreover from wf have "0 \<le> rate b / 100" by (simp add: wf_bracket_def)
  ultimately show ?thesis using True by (simp add: bracketTax_def)
next
  case False
  then show ?thesis by (simp add: bracketTax_def)
qed

lemma bracketTax_mono:
  assumes "wf_bracket b" "a \<le> c"
  shows "bracketTax a b \<le> bracketTax c b"
proof (cases "bmin b < a")
  case True
  with assms have "bmin b < c" by simp
  moreover have "min_upto a (bmax b) - bmin b + 1 \<le> min_upto c (bmax b) - bmin b + 1"
    using min_upto_mono [OF assms(2)] by simp
  moreover have "0 \<le> rate b / 100" using assms(1) by (simp add: wf_bracket_def)
  ultimately show ?thesis using True
    by (simp add: bracketTax_def mult_right_mono)
next
  case False
  then show ?thesis using bracketTax_nonneg [OF assms(1), of c] by (simp add: bracketTax_def)
qed

lemma sum_bracketTax_mono:
  "list_all wf_bracket bs \<Longrightarrow> a \<le> c \<Longrightarrow>
   sum_list (map (bracketTax a) bs) \<le> sum_list (map (bracketTax c) bs)"
  by (induction bs) (simp_all add: add_mono bracketTax_mono)

lemma sum_bracketTax_nonneg:
  "list_all wf_bracket bs \<Longrightarrow> 0 \<le> sum_list (map (bracketTax a) bs)"
  by (induction bs) (simp_all add: bracketTax_nonneg)

lemma malta_wf: "list_all wf_bracket malta_brackets"
  by (simp add: malta_brackets_def wf_bracket_def)

lemma france_wf: "list_all wf_bracket france_brackets"
  by (simp add: france_brackets_def wf_bracket_def)

lemma getMarginalRate_ok: "bs \<noteq> [] \<Longrightarrow> \<exists>r. getMarginalRate inc bs = Inr r"
  by (simp add: getMarginalRate_def split: option.splits)

lemma malta_marginal: "\<exists>r. getMarginalRate inc malta_brackets = Inr r"
  by (rule getMarginalRate_ok) (simp add: malta_brackets_def)

lemma france_marginal: "\<exists>r. getMarginalRate inc france_brackets = Inr r"
  by (rule getMarginalRate_ok) (simp add: france_brackets_def)

section \<open>The Malta scenario\<close>

text \<open>
  C1: for Malta, the income tax of a single taxpayer without dependents on a gross income
  of 45,000 is 8,435 (810 + 1,250 + 6,375), the effective rate is 8,435/45,000, about
  18.74 per cent, and the marginal rate is 25 per cent. The edge function returns the same
  tax, and the effective rate rounded to 18.74.
\<close>

theorem malta_45000_single:
  "(\<exists>r. calculateIncomeTax ''MT'' (income_form (Num 45000) ''single'' (Num 0)) = Inr r
        \<and> totalTax r = 8435
        \<and> effectiveRate r = 8435 / 45000 * 100
        \<and> \<bar>effectiveRate r - 1874 / 100\<bar> < 1 / 200
        \<and> marginalRate r = 25)
   \<and> (\<exists>r. income_tax_handler \<lparr> edge_request.annual_income = Some 45000,
                edge_request.marital_status = Some ''single'',
                calculation_type = Some ''income_tax'' \<rparr> = Status200 (Some r)
        \<and> tax_due r = 8435
        \<and> effective_rate r = 1874 / 100)"
proof -
  have "\<exists>r. calculateIncomeTax ''MT'' (income_form (Num 45000) ''single'' (Num 0)) = Inr r
        \<and> totalTax r = 8435
        \<and> effectiveRate r = 8435 / 45000 * 100
        \<and> \<bar>effectiveRate r - 1874 / 100\<bar> < 1 / 200
        \<and> marginalRate r = 25"
    by (simp add: calculateIncomeTax_def income_form_def or_zero_def
        calculateMaltaIncomeTax_def malta_brackets_def min_upto_def getMarginalRate_def
        inBracket_def malta_allowances_def Let_def)
  moreover
  have "\<exists>r. income_tax_handler \<lparr> edge_request.annual_income = Some 45000,
                edge_request.marital_status = Some ''single'',
                calculation_type = Some ''income_tax'' \<rparr> = Status200 (Some r)
        \<and> tax_due r = 8435
        \<and> effective_rate r = 1874 / 100"
    by (simp add: income_tax_handler_def single_brackets_def math_round_def Let_def
        floor_eq_iff)
  ultimately show ?thesis by blast
qed

section \<open>The results of the three income-tax calculators\<close>

lemma malta_result:
  "\<exists>r. calculateMaltaIncomeTax inc m d = Inr r
     \<and> grossIncome r = inc
     \<and> totalTax r = max 0 (sum_list (map (bracketTax inc) malta_brackets) - malta_allowances m d)
     \<and> effectiveRate r = (if inc > 0 then totalTax r / inc * 100 else 0)
     \<and> getMarginalRate inc malta_brackets = Inr (marginalRate r)
     \<and> allowances r = Some (malta_allowances m d)
     \<and> income_result.breakdown r = Some (snd (taxBrackets inc malta_brackets 0 []))"
proof -
  obtain mr where "getMarginalRate inc malta_brackets = Inr mr"
    using malta_marginal by blast
  then show ?thesis
    using taxBrackets_fst [of inc malta_brackets 0 "[]"]
    by (simp add: calculateMaltaIncomeTax_def split_beta Let_def)
qed

lemma france_result:
  assumes "france_parts m d \<noteq> 0"
  shows "\<exists>r. calculateFranceIncomeTax inc m d = Inr r
     \<and> grossIncome r = inc
     \<and> totalTax r = sum_list (map (bracketTax (inc / france_parts m d)) france_brackets) * france_parts m d
     \<and> effectiveRate r = (if inc > 0 then totalTax r / inc * 100 else 0)
     \<and> getMarginalRate (inc / france_parts m d) france_brackets = Inr (marginalRate r)
     \<and> quotientFamilial r = Some (france_parts m d)
     \<and> income_result.breakdown r = Some (snd (taxBrackets (inc / france_parts m d) france_brackets 0 []))"
proof -
  obtain mr where "getMarginalRate (inc / france_parts m d) france_brackets = Inr mr"
    using france_marginal by blast
  then show ?thesis
    using taxBrackets_fst [of "inc / france_parts m d" france_brackets 0 "[]"] assms
    by (simp add: calculateFranceIncomeTax_def split_beta Let_def)
qed

lemma france_parts_pos: "0 \<le> d \<Longrightarrow> 0 < france_parts m d"
  by (simp add: france_parts_def add_pos_nonneg)

section \<open>The bracket width\<close>

text \<open>
  C2: the bracket evaluator gives each bracket the width \<open>min(base, upperBound) - lowerBound\<close>,
  clamped to \<open>[0, upperBound - lowerBound]\<close>. The loop of \<^verbatim>\<open>calculateMaltaIncomeTax\<close> adds 1 to
  that difference: on an income of 5,000 the only line of the breakdown is the first bracket
  (0 to 9,100) with a taxable amount of 5,001, more than the income, where the stated width is
  5,000.
\<close>

theorem first_bracket_width_off_by_one:
  "\<exists>r bd. calculateIncomeTax ''MT'' (income_form (Num 5000) ''single'' (Num 0)) = Inr r
     \<and> income_result.breakdown r = Some bd
     \<and> map taxableAmount bd = [5001]
     \<and> spec_width 5000 0 (Some 9100) = 5000"
  by (simp add: calculateIncomeTax_def income_form_def or_zero_def
        calculateMaltaIncomeTax_def malta_brackets_def min_upto_def getMarginalRate_def
        inBracket_def malta_allowances_def spec_width_def Let_def)

text \<open>
  The loop of the edge function does compute the stated widths: on limits in increasing
  order its breakdown is the one the specification describes, and its tax the sum of the
  contributions.
\<close>

lemma edge_loop_spec:
  "ordered_limits prev bs \<Longrightarrow> remaining = max 0 (a - prev) \<Longrightarrow>
   edge_loop a prev bs due remaining bd =
     (due + sum_list (map tax_amount (spec_breakdown a prev bs)), bd @ spec_breakdown a prev bs)"
proof (induction bs arbitrary: prev remaining due bd)
  case Nil
  then show ?case by simp
next
  case (Cons b bs)
  show ?case
  proof (cases "a \<le> prev")
    case True
    with Cons.prems show ?thesis by simp
  next
    case False
    then have rem: "remaining = a - prev" "0 < remaining" using Cons.prems(2) by simp_all
    show ?thesis
    proof (cases "limit b")
      case None
      with False rem show ?thesis
        by (simp add: spec_width_def min_upto_def)
    next
      case (Some l)
      with Cons.prems(1) have ord: "prev < l" "ordered_limits l bs" by simp_all
      have w: "spec_width a prev (Some l) = min remaining (l - prev)"
        using False ord(1) rem by (simp add: spec_width_def min_def max_def)
      have pos: "0 < min remaining (l - prev)" using rem(2) ord(1) by simp
      have next_rem: "remaining - min remaining (l - prev) = max 0 (a - l)"
        using rem(1) by (simp add: min_def max_def)
      show ?thesis
        using False Some rem(2) pos w
          Cons.IH [OF ord(2) next_rem]
        by (simp add: Let_def min_upto_def min.commute)
    qed
  qed
qed

lemma edge_loop_meets_spec:
  assumes "ordered_limits 0 bs" and "0 < a"
  shows "edge_loop a 0 bs 0 a [] =
     (sum_list (map tax_amount (spec_breakdown a 0 bs)), spec_breakdown a 0 bs)"
  using edge_loop_spec [OF assms(1), of a a 0 "[]"] assms(2) by simp

lemma single_ordered: "ordered_limits 0 single_brackets"
  by (simp add: single_brackets_def)

lemma married_ordered: "ordered_limits 0 married_brackets"
  by (simp add: married_brackets_def)

section \<open>Breakdown and total\<close>

lemma malta_tax_nonneg: "0 \<le> sum_list (map (bracketTax inc) malta_brackets)"
  using malta_wf by (rule sum_bracketTax_nonneg)

lemma malta_breakdown_sum:
  "\<exists>r bd. calculateMaltaIncomeTax inc m d = Inr r \<and> income_result.breakdown r = Some bd
     \<and> totalTax r = max 0 (sum_list (map tax bd) - malta_allowances m d)"
proof -
  obtain r where r: "calculateMaltaIncomeTax inc m d = Inr r"
      "totalTax r = max 0 (sum_list (map (bracketTax inc) malta_brackets) - malta_allowances m d)"
      "income_result.breakdown r = Some (snd (taxBrackets inc malta_brackets 0 []))"
    using malta_result [of inc m d] by blast
  have "sum_list (map tax (snd (taxBrackets inc malta_brackets 0 [])))
      = sum_list (map (bracketTax inc) malta_brackets)"
    using taxBrackets_snd [OF malta_wf, of inc 0 "[]"] by simp
  with r show ?thesis by simp
qed

lemma malta_single_breakdown_sum:
  "\<exists>r bd. calculateMaltaIncomeTax inc False 0 = Inr r \<and> income_result.breakdown r = Some bd
     \<and> totalTax r = sum_list (map tax bd)"
proof -
  obtain r where r: "calculateMaltaIncomeTax inc False 0 = Inr r"
      "totalTax r = max 0 (sum_list (map (bracketTax inc) malta_brackets) - malta_allowances False 0)"
      "income_result.breakdown r = Some (snd (taxBrackets inc malta_brackets 0 []))"
    using malta_result [of inc False 0] by blast
  have "sum_list (map tax (snd (taxBrackets inc malta_brackets 0 [])))
      = sum_list (map (bracketTax inc) malta_brackets)"
    using taxBrackets_snd [OF malta_wf, of inc 0 "[]"] by simp
  with r malta_tax_nonneg [of inc] show ?thesis by (simp add: malta_allowances_def)
qed

lemma france_breakdown_sum:
  assumes "0 \<le> d"
  shows "\<exists>r bd. calculateFranceIncomeTax inc m d = Inr r \<and> income_result.breakdown r = Some bd
     \<and> totalTax r = sum_list (map tax bd) * france_parts m d"
proof -
  let ?p = "france_parts m d"
  have nz: "?p \<noteq> 0" using france_parts_pos [OF assms, of m] by simp
  obtain r where r: "calculateFranceIncomeTax inc m d = Inr r"
      "totalTax r = sum_list (map (bracketTax (inc / ?p)) france_brackets) * ?p"
      "income_result.breakdown r = Some (snd (taxBrackets (inc / ?p) france_brackets 0 []))"
    using france_result [OF nz, of inc] by blast
  have "sum_list (map tax (snd (taxBrackets (inc / ?p) france_brackets 0 [])))
      = sum_list (map (bracketTax (inc / ?p)) france_brackets)"
    using taxBrackets_snd [OF france_wf, of "inc / ?p" 0 "[]"] by simp
  with r show ?thesis by simp
qed

lemma edge_loop_sum:
  "edge_loop a prev bs due remaining bd = (d', bd') \<Longrightarrow>
   d' - sum_list (map tax_amount bd') = due - sum_list (map tax_amount bd)"
proof (induction a prev bs due remaining bd rule: edge_loop.induct)
  case (1 a prev due remaining bd)
  then show ?case by simp
next
  case (2 a prev b bs due remaining bd)
  show ?case
  proof (cases "remaining \<le> 0")
    case True
    with "2.prems" show ?thesis by simp
  next
    case False
    show ?thesis
    proof (cases "limit b")
      case None
      with False "2.prems" show ?thesis by auto
    next
      case (Some l)
      show ?thesis
      proof (cases "0 < min remaining (l - prev)")
        case True
        with False Some "2.prems" "2.IH"(1) [OF False Some refl True] show ?thesis
          by (simp add: Let_def)
      next
        case no: False
        with False Some "2.prems" "2.IH"(2) [OF False Some refl no] show ?thesis
          by (simp add: Let_def)
      qed
    qed
  qed
qed

lemma edge_loop_total:
  "fst (edge_loop a 0 bs 0 a []) = sum_list (map tax_amount (snd (edge_loop a 0 bs 0 a [])))"
  using edge_loop_sum [of a 0 bs 0 a "[]" "fst (edge_loop a 0 bs 0 a [])" "snd (edge_loop a 0 bs 0 a [])"]
  by simp

lemma math_round_cents: "\<bar>math_round (x * 100) / 100 - x\<bar> \<le> 1 / 200"
proof -
  have "\<bar>of_int \<lfloor>x * 100 + 1 / 2\<rfloor> - x * 100\<bar> \<le> 1 / 2"
    by linarith
  then have "\<bar>math_round (x * 100) - x * 100\<bar> / 100 \<le> (1 / 2) / 100"
    unfolding math_round_def by (simp only: divide_right_mono)
  moreover have "\<bar>math_round (x * 100) - x * 100\<bar> / 100 = \<bar>math_round (x * 100) / 100 - x\<bar>"
    by (simp add: abs_if field_simps)
  ultimately show ?thesis by simp
qed

lemma handler_income_tax:
  assumes "edge_request.annual_income req = Some a" and "0 < a"
    and "calculation_type req = None \<or> calculation_type req = Some ''income_tax''"
  shows "\<exists>r. income_tax_handler req = Status200 (Some r)
     \<and> tax_due r = math_round (sum_list (map tax_amount (edge_result.breakdown r)) * 100) / 100
     \<and> \<bar>tax_due r - sum_list (map tax_amount (edge_result.breakdown r))\<bar> \<le> 1 / 200"
proof -
  let ?bs = "if (case edge_request.marital_status req of None \<Rightarrow> ''single'' | Some s \<Rightarrow> s) = ''single''
             then single_brackets else married_brackets"
  have "\<exists>r. income_tax_handler req = Status200 (Some r)
     \<and> tax_due r = math_round (fst (edge_loop a 0 ?bs 0 a []) * 100) / 100
     \<and> edge_result.breakdown r = snd (edge_loop a 0 ?bs 0 a [])"
    using assms by (auto simp add: income_tax_handler_def Let_def split_beta)
  then obtain r where r: "income_tax_handler req = Status200 (Some r)"
      "tax_due r = math_round (fst (edge_loop a 0 ?bs 0 a []) * 100) / 100"
      "edge_result.breakdown r = snd (edge_loop a 0 ?bs 0 a [])"
    by blast
  have total: "fst (edge_loop a 0 ?bs 0 a []) = sum_list (map tax_amount (edge_result.breakdown r))"
    unfolding r(3) by (rule edge_loop_total)
  have "tax_due r = math_round (sum_list (map tax_amount (edge_result.breakdown r)) * 100) / 100"
    using r(2) unfolding total .
  moreover from this
  have "\<bar>tax_due r - sum_list (map tax_amount (edge_result.breakdown r))\<bar> \<le> 1 / 200"
    by (simp only: math_round_cents)
  ultimately show ?thesis using r(1) by blast
qed

text \<open>
  C3, as stated (the contributions of the breakdown add up to the total within 0.01, also
  for married taxpayers under the flat allowances), fails: for a married taxpayer in Malta
  with an income of 45,000 the breakdown adds up to 8,435 and the total is 7,835.
\<close>

theorem breakdown_sum_counterexample:
  "result_total (calculateIncomeTax ''MT'' (income_form (Num 45000) ''married'' (Num 0))) = Some 7835
   \<and> result_breakdown_sum (calculateIncomeTax ''MT'' (income_form (Num 45000) ''married'' (Num 0)))
       = Some 8435
   \<and> \<not> \<bar>(8435 :: rat) - 7835\<bar> \<le> 1 / 100"
  by (simp add: result_total_def result_breakdown_sum_def calculateIncomeTax_def income_form_def
        or_zero_def calculateMaltaIncomeTax_def malta_brackets_def min_upto_def
        getMarginalRate_def inBracket_def malta_allowances_def Let_def)

text \<open>
  C3, amended: in Malta the total is the sum of the breakdown less the allowances (600 when
  married, 300 for each dependent), not below 0, so for a single taxpayer without dependents
  it is the sum itself; in France it is the sum of the breakdown times the number of parts
  of the household; the tax due of the edge function is the sum of its breakdown rounded to
  the cent, at most 0.005 away from it.
\<close>

theorem breakdown_sum_adjusted:
  assumes "0 \<le> d"
    and "edge_request.annual_income req = Some a" and "0 < a"
    and "calculation_type req = None \<or> calculation_type req = Some ''income_tax''"
  shows "(\<exists>r bd. calculateMaltaIncomeTax inc m d = Inr r \<and> income_result.breakdown r = Some bd
            \<and> totalTax r
                = max 0 (sum_list (map tax bd)
                         - ((if m then 600 else 0) + of_int d * 300)))
       \<and> (\<exists>r bd. calculateMaltaIncomeTax inc False 0 = Inr r
            \<and> income_result.breakdown r = Some bd
            \<and> totalTax r = sum_list (map tax bd))
       \<and> (\<exists>r bd. calculateFranceIncomeTax inc m d = Inr r \<and> income_result.breakdown r = Some bd
            \<and> totalTax r
                = sum_list (map tax bd) * ((if m then 2 else 1) + of_int d * (1 / 2)))
       \<and> (\<exists>r. income_tax_handler req = Status200 (Some r)
            \<and> tax_due r
                = math_round (sum_list (map tax_amount (edge_result.breakdown r)) * 100) / 100
            \<and> \<bar>tax_due r - sum_list (map tax_amount (edge_result.breakdown r))\<bar> \<le> 1 / 200)"
  using malta_breakdown_sum [of inc m d] malta_single_breakdown_sum [of inc]
    france_breakdown_sum [OF assms(1), of inc m] handler_income_tax [OF assms(2,3,4)]
  unfolding malta_allowances_def france_parts_def by blast

theorem breakdown_sum_adjusted_witness:
  "(\<exists>r bd. calculateMaltaIncomeTax 45000 True 1 = Inr r \<and> income_result.breakdown r = Some bd
       \<and> totalTax r = max 0 (sum_list (map tax bd) - 900))
   \<and> (\<exists>r bd. calculateFranceIncomeTax 45000 True 1 = Inr r \<and> income_result.breakdown r = Some bd
       \<and> totalTax r = sum_list (map tax bd) * (5 / 2))
   \<and> (\<exists>r. income_tax_handler \<lparr> edge_request.annual_income = Some (1000001 / 100),
                edge_request.marital_status = None, calculation_type = None \<rparr>
              = Status200 (Some r)
       \<and> \<bar>tax_due r - sum_list (map tax_amount (edge_result.breakdown r))\<bar> \<le> 1 / 200)"
  using breakdown_sum_adjusted [of 1 "\<lparr> edge_request.annual_income = Some (1000001 / 100),
                edge_request.marital_status = None, calculation_type = None \<rparr>" "1000001 / 100"
                45000 True]
  by auto

section \<open>Stamp duty\<close>

text \<open>
  C4, as stated (marginal bands, 1,000 on a first purchase of 200,000 in Malta), fails:
  \<^verbatim>\<open>calculatePropertyTax\<close> charges a first-time buyer in Malta nothing.
\<close>

theorem stamp_duty_first_time_buyer_counterexample:
  "propertyTax (calculatePropertyTax ''MT'' (property_form (Num 200000) True)) = 0
   \<and> propertyTax (calculatePropertyTax ''MT'' (property_form (Num 200000) True)) \<noteq> 1000"
  by (simp add: calculatePropertyTax_def property_form_def property_rate_def or_zero_def)

text \<open>
  C4, amended: the property tax is the property value times one flat rate: in Malta 0 per
  cent for a first-time buyer and 5 per cent otherwise, 3 per cent in every other
  jurisdiction.
\<close>

theorem property_tax_flat_rate:
  "propertyTax (calculatePropertyTax jur fd) =
     or_zero (formData.propertyValue fd)
       * ((if jur = ''MT'' then (if formData.isFirstTimeBuyer fd then 0 else 5) else 3) / 100)"
  by (simp add: calculatePropertyTax_def property_rate_def Let_def)

section \<open>A base of zero\<close>












section \<open>Monotonicity\<close>

lemma generic_tax_mono:
  assumes "a \<le> (c::rat)"
  shows "a * (generic_rate a / 100) \<le> c * (generic_rate c / 100)"
  using assms by (auto simp add: generic_rate_def)

lemma malta_mono:
  assumes "a \<le> c"
  shows "\<exists>ra rc. calculateMaltaIncomeTax a m d = Inr ra \<and> calculateMaltaIncomeTax c m d = Inr rc
           \<and> totalTax ra \<le> totalTax rc"
proof -
  obtain ra where ra: "calculateMaltaIncomeTax a m d = Inr ra"
      "totalTax ra = max 0 (sum_list (map (bracketTax a) malta_brackets) - malta_allowances m d)"
    using malta_result [of a m d] by blast
  obtain rc where rc: "calculateMaltaIncomeTax c m d = Inr rc"
      "totalTax rc = max 0 (sum_list (map (bracketTax c) malta_brackets) - malta_allowances m d)"
    using malta_result [of c m d] by blast
  have "sum_list (map (bracketTax a) malta_brackets) \<le> sum_list (map (bracketTax c) malta_brackets)"
    using malta_wf assms by (rule sum_bracketTax_mono)
  then have "totalTax ra \<le> totalTax rc" using ra(2) rc(2) by simp
  with ra(1) rc(1) show ?thesis by blast
qed

lemma france_mono_parts:
  assumes "a \<le> c" "france_parts m d \<noteq> 0"
  shows "\<exists>ra rc. calculateFranceIncomeTax a m d = Inr ra \<and> calculateFranceIncomeTax c m d = Inr rc
           \<and> totalTax ra \<le> totalTax rc"
proof -
  let ?p = "france_parts m d"
  obtain ra where ra: "calculateFranceIncomeTax a m d = Inr ra"
      "totalTax ra = sum_list (map (bracketTax (a / ?p)) france_brackets) * ?p"
    using france_result [OF assms(2), of a] by blast
  obtain rc where rc: "calculateFranceIncomeTax c m d = Inr rc"
      "totalTax rc = sum_list (map (bracketTax (c / ?p)) france_brackets) * ?p"
    using france_result [OF assms(2), of c] by blast
  have "totalTax ra \<le> totalTax rc"
  proof (cases "0 < ?p")
    case True
    then have "a / ?p \<le> c / ?p" using assms(1) by (simp add: divide_right_mono)
    with france_wf have "sum_list (map (bracketTax (a / ?p)) france_brackets)
        \<le> sum_list (map (bracketTax (c / ?p)) france_brackets)"
      by (rule sum_bracketTax_mono)
    then show ?thesis using ra(2) rc(2) True by (simp add: mult_right_mono)
  next
    case False
    with assms(2) have neg: "?p < 0" by simp
    then have "c / ?p \<le> a / ?p" using assms(1) by (simp add: divide_right_mono_neg)
    with france_wf have "sum_list (map (bracketTax (c / ?p)) france_brackets)
        \<le> sum_list (map (bracketTax (a / ?p)) france_brackets)"
      by (rule sum_bracketTax_mono)
    then show ?thesis using ra(2) rc(2) neg by (simp add: mult_right_mono_neg)
  qed
  with ra(1) rc(1) show ?thesis by blast
qed

lemma generic_mono:
  assumes "a \<le> c"
  shows "\<exists>ra rc. calculateGenericIncomeTax jur a m d = Inr ra \<and> calculateGenericIncomeTax jur c m d = Inr rc
           \<and> totalTax ra \<le> totalTax rc"
  using generic_tax_mono [OF assms] by (simp add: calculateGenericIncomeTax_def Let_def)

text \<open>
  C6, as stated (for any fixed dependent count the total does not decrease when the income
  grows), fails: the number of dependents is read from the form unchecked, and for a single
  taxpayer in France with -2 dependents the household has 0 parts. The total is then 0 on an
  income of 0 and \<^verbatim>\<open>NaN\<close> on an income of 45,000 (the model returns \<open>NonFinite\<close>), and 0
  is not at most \<^verbatim>\<open>NaN\<close>.
\<close>

theorem monotone_counterexample:
  "result_total (calculateIncomeTax ''FR'' (income_form (Num 0) ''single'' (Num (- 2)))) = Some 0
   \<and> calculateIncomeTax ''FR'' (income_form (Num 45000) ''single'' (Num (- 2))) = Inl NonFinite
   \<and> result_total (calculateIncomeTax ''FR'' (income_form (Num 45000) ''single'' (Num (- 2)))) = None"
  by (simp add: result_total_def calculateIncomeTax_def income_form_def or_zero_def
      calculateFranceIncomeTax_def france_parts_def)

text \<open>
  C6, amended: with the jurisdiction, the marital status and the number of dependents
  fixed, the total income tax does not decrease when the income grows, provided that in
  France the number of parts of the household (1, or 2 when married, plus a half for each
  dependent) is not 0; this holds for every number of dependents that is not negative,
  and in Malta and under the generic calculation for every number of dependents.
\<close>

theorem income_tax_monotone:
  assumes "or_zero (income fa) \<le> or_zero (income fb)"
    and "maritalStatus fa = maritalStatus fb"
    and "dependents fa = dependents fb"
    and "jur = ''FR'' \<Longrightarrow>
           france_parts (maritalStatus fa = ''married'') (or_zero (dependents fa)) \<noteq> 0"
  shows "\<exists>ra rb. calculateIncomeTax jur fa = Inr ra \<and> calculateIncomeTax jur fb = Inr rb
           \<and> totalTax ra \<le> totalTax rb"
proof -
  let ?m = "maritalStatus fa = ''married''" and ?d = "or_zero (dependents fa)"
  consider "jur = ''MT''" | "jur \<noteq> ''MT''" "jur = ''FR''" | "jur \<noteq> ''MT''" "jur \<noteq> ''FR''"
    by blast
  then show ?thesis
  proof cases
    case 1
    with assms(2,3) malta_mono [OF assms(1), of ?m ?d] show ?thesis
      by (simp add: calculateIncomeTax_def)
  next
    case 2
    with assms(2,3) france_mono_parts [OF assms(1) assms(4) [OF 2(2)]] show ?thesis
      by (simp add: calculateIncomeTax_def)
  next
    case 3
    with assms(2,3) generic_mono [OF assms(1), of jur ?m ?d] show ?thesis
      by (simp add: calculateIncomeTax_def)
  qed
qed

theorem income_tax_monotone_witness:
  "(\<exists>ra rb. calculateIncomeTax ''FR'' (income_form (Num 30000) ''married'' (Num 2)) = Inr ra
      \<and> calculateIncomeTax ''FR'' (income_form (Num 90000) ''married'' (Num 2)) = Inr rb
      \<and> totalTax ra \<le> totalTax rb)
   \<and> france_parts True 2 = 3"
  using income_tax_monotone [of "income_form (Num 30000) ''married'' (Num 2)"
      "income_form (Num 90000) ''married'' (Num 2)" "''FR''"]
  by (simp add: income_form_def or_zero_def france_parts_def)

section \<open>Corporate tax\<close>

text \<open>
  C7, as stated (the reduced rate on the part of the base under the threshold, the standard
  rate above it), fails: for France a taxable profit of 50,000 is taxed 12,500, the standard
  rate on all of it, where the two bands give 8,250.
\<close>

theorem corporate_two_band_counterexample:
  "corporateTax (calculateCorporateTax ''FR'' (corporate_form (Num 50000) (Num 0))) = 12500
   \<and> spec_two_band_tax 42500 15 25 50000 = 8250
   \<and> corporateTax (calculateCorporateTax ''FR'' (corporate_form (Num 50000) (Num 0)))
       \<noteq> spec_two_band_tax 42500 15 25 50000"
  by (simp add: calculateCorporateTax_def corporate_form_def corporate_rate_def or_zero_def
      spec_two_band_tax_def)

text \<open>
  C7, amended: the taxable profit is the profit less the expenses, not below 0, and the tax
  is the taxable profit times one rate: 35 per cent in Malta, in France 15 per cent when the
  taxable profit is at most 42,500 and 25 per cent (on all of it) above, 25 per cent
  elsewhere.
\<close>

theorem corporate_tax_single_rate:
  "taxableProfit (calculateCorporateTax jur fd)
     = max 0 (or_zero (income fd) - or_zero (formData.businessExpenses fd))
   \<and> corporateTax (calculateCorporateTax jur fd)
     = taxableProfit (calculateCorporateTax jur fd)
         * ((if jur = ''MT'' then 35
             else if jur = ''FR''
               then (if taxableProfit (calculateCorporateTax jur fd) \<le> 42500 then 15 else 25)
             else 25) / 100)"
  by (simp add: calculateCorporateTax_def corporate_rate_def Let_def)

section \<open>The marginal rate\<close>

text \<open>
  When some bracket contains the base, \<open>getMarginalRate\<close> returns the rate of the first one
  that does.
\<close>

lemma find_Some_holds: "find P xs = Some x \<Longrightarrow> P x \<and> x \<in> set xs"
  by (induction xs) (auto split: if_splits)

lemma getMarginalRate_containing:
  assumes "list_ex (inBracket inc) bs"
  shows "\<exists>b. b \<in> set bs \<and> inBracket inc b \<and> getMarginalRate inc bs = Inr (rate b)"
proof -
  from assms obtain b where "find (inBracket inc) bs = Some b"
    by (cases "find (inBracket inc) bs") (auto simp add: find_None_iff list_ex_iff)
  then show ?thesis
    using find_Some_holds [of "inBracket inc" bs b] by (auto simp add: getMarginalRate_def)
qed

text \<open>
  C9: the marginal rate of the result is the rate of the bracket that contains the base.
  The brackets of the tables end and start on consecutive whole numbers, and a base between
  two of them is in no bracket: \<^verbatim>\<open>getMarginalRate\<close> then returns the rate of the last
  bracket. A married couple in France with an income of 21,555 has a quotient of 10,777.5,
  pays no tax, and is told a marginal rate of 45 per cent.
\<close>

theorem marginal_rate_in_gap:
  "\<exists>r. calculateIncomeTax ''FR'' (income_form (Num 21555) ''married'' (Num 0)) = Inr r
     \<and> totalTax r = 0
     \<and> marginalRate r = 45"
  by (simp add: calculateIncomeTax_def income_form_def or_zero_def
        calculateFranceIncomeTax_def france_brackets_def min_upto_def getMarginalRate_def
        inBracket_def france_parts_def Let_def)

section \<open>Input that is negative or does not parse\<close>

lemma nan_income_is_zero:
  "calculateIncomeTax jur (fd\<lparr>income := NaN\<rparr>) = calculateIncomeTax jur (fd\<lparr>income := Num 0\<rparr>)"
  by (simp add: calculateIncomeTax_def or_zero_def)

lemma income_tax_returns:
  assumes "0 \<le> or_zero (dependents fd)"
  shows "\<exists>r. calculateIncomeTax jur fd = Inr r \<and> grossIncome r = or_zero (income fd)"
proof -
  let ?m = "maritalStatus fd = ''married''" and ?d = "or_zero (dependents fd)"
    and ?i = "or_zero (income fd)"
  have "france_parts ?m ?d \<noteq> 0" using france_parts_pos [OF assms, of ?m] by simp
  then show ?thesis
    using malta_result [of ?i ?m ?d] france_result [of ?m ?d ?i]
    by (auto simp add: calculateIncomeTax_def calculateGenericIncomeTax_def Let_def)
qed

lemma other_status_is_single:
  assumes "maritalStatus fd \<noteq> ''married''"
  shows "calculateIncomeTax jur fd = calculateIncomeTax jur (fd\<lparr>maritalStatus := ''single''\<rparr>)"
  using assms by (simp add: calculateIncomeTax_def)

lemma handler_rejects_missing:
  "income_tax_handler (req\<lparr>edge_request.annual_income := None\<rparr>)
     = Status400 ''Valid annual income is required''"
  by (simp add: income_tax_handler_def)

lemma handler_rejects_nonpositive:
  assumes "a \<le> 0"
  shows "income_tax_handler (req\<lparr>edge_request.annual_income := Some a\<rparr>)
     = Status400 ''Valid annual income is required''"
  using assms by (simp add: income_tax_handler_def)

lemma handler_other_status_is_married:
  assumes "ms \<noteq> ''single''"
  shows "income_tax_handler (req\<lparr>edge_request.marital_status := Some ms\<rparr>)
     = (case income_tax_handler (req\<lparr>edge_request.marital_status := Some ''married''\<rparr>) of
          Status200 (Some r) \<Rightarrow> Status200 (Some (r\<lparr>edge_result.marital_status := ms\<rparr>))
        | other \<Rightarrow> other)"
  using assms
  by (simp add: income_tax_handler_def Let_def split_beta split: option.splits)

text \<open>
  C8, as stated (a negative or malformed input fails with an error and is never taken for
  0), fails: \<^verbatim>\<open>calculateIncomeTax\<close> returns a result for an income of -5,000, takes an income
  that does not parse for 0, and takes the marital status \<^verbatim>\<open>widowed\<close> for single.
\<close>

theorem invalid_input_counterexample:
  "\<not> isl (calculateIncomeTax ''MT'' (income_form (Num (- 5000)) ''single'' (Num 0)))
   \<and> calculateIncomeTax ''MT'' (income_form NaN ''single'' (Num 0))
       = calculateIncomeTax ''MT'' (income_form (Num 0) ''single'' (Num 0))
   \<and> calculateIncomeTax ''MT'' (income_form (Num 45000) ''widowed'' (Num 0))
       = calculateIncomeTax ''MT'' (income_form (Num 45000) ''single'' (Num 0))"
  by (simp add: calculateIncomeTax_def income_form_def or_zero_def
        calculateMaltaIncomeTax_def malta_brackets_def min_upto_def getMarginalRate_def
        inBracket_def malta_allowances_def Let_def)

text \<open>
  C8, amended: \<^verbatim>\<open>calculateIncomeTax\<close> reports no input error: it returns a result on the
  income as it was parsed, negative or not (given a number of dependents that is not
  negative), an income that does not parse counts as 0, and a marital status other than
  \<^verbatim>\<open>married\<close> counts as single. The edge function rejects a missing, zero or negative annual
  income with status 400, and takes a marital status other than \<^verbatim>\<open>single\<close> for married.
\<close>

theorem input_handling:
  assumes "0 \<le> or_zero (dependents fd)"
    and "maritalStatus fd \<noteq> ''married''"
    and "a \<le> 0"
    and "ms \<noteq> ''single''"
  shows "(\<exists>r. calculateIncomeTax jur fd = Inr r \<and> grossIncome r = or_zero (income fd))
       \<and> calculateIncomeTax jur (fd\<lparr>income := NaN\<rparr>)
           = calculateIncomeTax jur (fd\<lparr>income := Num 0\<rparr>)
       \<and> calculateIncomeTax jur fd = calculateIncomeTax jur (fd\<lparr>maritalStatus := ''single''\<rparr>)
       \<and> income_tax_handler (req\<lparr>edge_request.annual_income := None\<rparr>)
           = Status400 ''Valid annual income is required''
       \<and> income_tax_handler (req\<lparr>edge_request.annual_income := Some a\<rparr>)
           = Status400 ''Valid annual income is required''
       \<and> income_tax_handler (req\<lparr>edge_request.marital_status := Some ms\<rparr>)
           = (case income_tax_handler (req\<lparr>edge_request.marital_status := Some ''married''\<rparr>) of
                Status200 (Some r) \<Rightarrow> Status200 (Some (r\<lparr>edge_result.marital_status := ms\<rparr>))
              | other \<Rightarrow> other)"
  using income_tax_returns [OF assms(1), of jur] nan_income_is_zero [of jur fd]
    other_status_is_single [OF assms(2), of jur] handler_rejects_missing [of req]
    handler_rejects_nonpositive [OF assms(3), of req]
    handler_other_status_is_married [OF assms(4), of req]
  by blast

theorem input_handling_witness:
  "(\<exists>r. calculateIncomeTax ''MT'' (income_form (Num (- 5000)) ''widowed'' (Num 0)) = Inr r
       \<and> grossIncome r = - 5000)
   \<and> calculateIncomeTax ''MT'' (income_form (Num (- 5000)) ''widowed'' (Num 0))
       = calculateIncomeTax ''MT'' (income_form (Num (- 5000)) ''single'' (Num 0))
   \<and> income_tax_handler \<lparr> edge_request.annual_income = Some (- 1),
        edge_request.marital_status = None, calculation_type = None \<rparr>
       = Status400 ''Valid annual income is required''"
  using input_handling [of "income_form (Num (- 5000)) ''widowed'' (Num 0)" "- 1" "''widowed''"
      "''MT''" "\<lparr> edge_request.annual_income = Some 45000,
        edge_request.marital_status = None, calculation_type = None \<rparr>"]
  by (auto simp add: income_form_def or_zero_def)

section \<open>Other jurisdictions\<close>

text \<open>
  C10: for a jurisdiction code other than MT and FR the income-tax calculation returns a
  result, under the code that was given, whose tax is the income times one rate (20 per
  cent up to 50,000, 30 per cent up to 100,000, 40 per cent above) less the allowances
  (2,000 when married, else 1,000, plus 500 for each dependent), not below 0.
\<close>

theorem generic_income_tax:
  assumes "jur \<noteq> ''MT''" and "jur \<noteq> ''FR''"
  shows "\<exists>r. calculateIncomeTax jur fd = Inr r
     \<and> totalTax r =
         max 0 (or_zero (income fd)
                  * ((if or_zero (income fd) \<le> 50000 then 20
                      else if or_zero (income fd) \<le> 100000 then 30 else 40) / 100)
                - ((if maritalStatus fd = ''married'' then 2000 else 1000)
                   + of_int (or_zero (dependents fd)) * 500))
     \<and> income_result.jurisdiction r = jur"
  using assms
  by (simp add: calculateIncomeTax_def calculateGenericIncomeTax_def generic_rate_def
      generic_allowances_def Let_def)

theorem generic_income_tax_witness:
  "\<exists>r. calculateIncomeTax ''DE'' (income_form (Num 60000) ''married'' (Num 2)) = Inr r
     \<and> totalTax r = 15000 \<and> income_result.jurisdiction r = ''DE''"
  using generic_income_tax [of "''DE''" "income_form (Num 60000) ''married'' (Num 2)"]
  by (simp add: income_form_def or_zero_def)

end
